theory Spec2Isabelle
  imports Main
begin

section \<open>Python values and exceptions\<close>

text \<open>
  The webhook of \<^verbatim>\<open>src/app.py\<close> works on the value that \<^verbatim>\<open>json.loads\<close> returns, which
  is any Python value a JSON text denotes, not only a dict. A float is kept as a mantissa
  and a binary exponent, or one of the special values that \<^verbatim>\<open>json.loads\<close> accepts.
\<close>

datatype pyfloat = Finite int int | Infinity bool | NaN

datatype pyval =
    PyNone
  | PyBool bool
  | PyInt int
  | PyFloat pyfloat
  | PyStr string
  | PyList "pyval list"
  | PyDict "(string \<times> pyval) list"

text \<open>
  The exceptions the program meets. \<open>HTTPException\<close> carries \<^verbatim>\<open>status_code\<close> and
  \<^verbatim>\<open>detail\<close>; \<open>AttributeError\<close> the type name of the object and the attribute;
  \<open>UnboundLocalError\<close> the name of the variable; \<open>Psycopg2Error\<close> the message of
  an error raised by the database driver. All of them are subclasses of \<^verbatim>\<open>Exception\<close>.
\<close>

datatype exn =
    HTTPException nat string
  | JSONDecodeError string
  | UnicodeDecodeError string
  | AttributeError string string
  | UnboundLocalError string
  | Psycopg2Error string

text \<open>Truth value of a Python value, as \<^verbatim>\<open>not email\<close> tests it.\<close>

fun truthy :: "pyval \<Rightarrow> bool" where
  "truthy PyNone = False"
| "truthy (PyBool b) = b"
| "truthy (PyInt i) = (i \<noteq> 0)"
| "truthy (PyFloat (Finite m e)) = (m \<noteq> 0)"
| "truthy (PyFloat (Infinity s)) = True"
| "truthy (PyFloat NaN) = True"
| "truthy (PyStr s) = (s \<noteq> [])"
| "truthy (PyList xs) = (xs \<noteq> [])"
| "truthy (PyDict kvs) = (kvs \<noteq> [])"

fun type_name :: "pyval \<Rightarrow> string" where
  "type_name PyNone = ''NoneType''"
| "type_name (PyBool b) = ''bool''"
| "type_name (PyInt i) = ''int''"
| "type_name (PyFloat f) = ''float''"
| "type_name (PyStr s) = ''str''"
| "type_name (PyList xs) = ''list''"
| "type_name (PyDict kvs) = ''dict''"

text \<open>
  \<^verbatim>\<open>obj.get(key, default)\<close>: the lookup of a dict; on any other value the attribute
  \<^verbatim>\<open>get\<close> does not exist and Python raises \<^verbatim>\<open>AttributeError\<close>. A key that is
  present with the value \<^verbatim>\<open>null\<close> yields \<open>PyNone\<close>, not the default.
\<close>

fun py_get :: "pyval \<Rightarrow> string \<Rightarrow> pyval \<Rightarrow> exn + pyval" where
  "py_get (PyDict kvs) k d = Inr (case map_of kvs k of None \<Rightarrow> d | Some v \<Rightarrow> v)"
| "py_get v k d = Inl (AttributeError (type_name v) ''get'')"

section \<open>Configuration and storage\<close>

text \<open>
  The module-level settings read from the environment. Each is a string whatever the
  environment holds (\<^verbatim>\<open>os.getenv\<close> with a string default).
\<close>

record config =
  TRIGGER_SOURCE :: string
  DEFAULT_PROVIDER :: string

type_synonym datetime = int

text \<open>
  One row of the users table, with the columns of the \<^verbatim>\<open>INSERT\<close> statement. The column
  \<^verbatim>\<open>id\<close> is the field \<open>row_id\<close>. The four values that come from the caller are kept
  as the Python values handed to the driver.
\<close>

record user_row =
  row_id :: string
  cognito_user_id :: pyval
  email :: pyval
  name :: pyval
  picture_url :: pyval
  provider :: string
  created_at :: datetime
  updated_at :: datetime
  is_active :: bool
  onboarding_completed :: bool
  preferences :: string

datatype statement = InsertUser user_row | Select1

datatype db_call =
    Connect
  | Cursor
  | Execute statement
  | Fetchone
  | Commit
  | Rollback
  | CursorClose
  | ConnClose

text \<open>
  The state outside the process: the committed rows of the users table, the uncommitted
  view of the transaction of the connection in use, the number of connections that are
  open, and the log of every call made to the driver.
\<close>

record world =
  users :: "user_row list"
  pending :: "user_row list option"
  open_conns :: nat
  calls :: "db_call list"

text \<open>
  \<^verbatim>\<open>INSERT ... ON CONFLICT (cognito_user_id) DO UPDATE SET email, name, picture_url,
  updated_at\<close>: a row with the same \<^verbatim>\<open>cognito_user_id\<close> takes the four excluded values and
  keeps every other column; without such a row the new one is added.
\<close>

definition on_conflict_update :: "user_row \<Rightarrow> user_row \<Rightarrow> user_row" where
  "on_conflict_update excluded r =
     r\<lparr>email := email excluded, name := name excluded,
       picture_url := picture_url excluded, updated_at := updated_at excluded\<rparr>"

definition insert_user :: "user_row \<Rightarrow> user_row list \<Rightarrow> user_row list" where
  "insert_user new rows =
     (if list_ex (\<lambda>r. cognito_user_id r = cognito_user_id new) rows
      then map (\<lambda>r. if cognito_user_id r = cognito_user_id new
                     then on_conflict_update new r else r) rows
      else rows @ [new])"

text \<open>What each driver call does to the world when it succeeds.\<close>

fun effect :: "db_call \<Rightarrow> world \<Rightarrow> world" where
  "effect Connect w = w\<lparr>pending := None, open_conns := Suc (open_conns w)\<rparr>"
| "effect Cursor w = w"
| "effect (Execute (InsertUser new)) w =
     w\<lparr>pending := Some (insert_user new (case pending w of None \<Rightarrow> users w | Some p \<Rightarrow> p))\<rparr>"
| "effect (Execute Select1) w = w"
| "effect Fetchone w = w"
| "effect Commit w =
     w\<lparr>users := (case pending w of None \<Rightarrow> users w | Some p \<Rightarrow> p), pending := None\<rparr>"
| "effect Rollback w = w\<lparr>pending := None\<rparr>"
| "effect CursorClose w = w"
| "effect ConnClose w = w\<lparr>pending := None, open_conns := open_conns w - 1\<rparr>"

section \<open>Effects: state and exceptions\<close>

type_synonym 'a io = "world \<Rightarrow> (exn + 'a) \<times> world"

definition return :: "'a \<Rightarrow> 'a io" where
  "return x w = (Inr x, w)"

definition raise :: "exn \<Rightarrow> 'a io" where
  "raise e w = (Inl e, w)"

definition bind :: "'a io \<Rightarrow> ('a \<Rightarrow> 'b io) \<Rightarrow> 'b io" where
  "bind m f w = (case m w of (Inl e, w') \<Rightarrow> (Inl e, w') | (Inr x, w') \<Rightarrow> f x w')"

definition try_except :: "'a io \<Rightarrow> (exn \<Rightarrow> 'a io) \<Rightarrow> 'a io" where
  "try_except m h w = (case m w of (Inl e, w') \<Rightarrow> h e w' | (Inr x, w') \<Rightarrow> (Inr x, w'))"

text \<open>
  Any call to the driver can fail. \<open>fault n\<close> tells whether the \<open>n\<close>-th call ever made
  fails, and with which message; a failing call is logged and changes nothing else.
\<close>

definition db :: "(nat \<Rightarrow> string option) \<Rightarrow> db_call \<Rightarrow> unit io" where
  "db fault c w =
     (let w' = w\<lparr>calls := calls w @ [c]\<rparr>
      in case fault (length (calls w)) of
           Some msg \<Rightarrow> (Inl (Psycopg2Error msg), w')
         | None \<Rightarrow> (Inr (), effect c w'))"

section \<open>The program\<close>

text \<open>\<^verbatim>\<open>get_db_connection\<close>: any failure of \<^verbatim>\<open>psycopg2.connect\<close> is logged and replaced.\<close>

definition get_db_connection :: "(nat \<Rightarrow> string option) \<Rightarrow> unit io" where
  "get_db_connection fault =
     try_except (db fault Connect)
       (\<lambda>e. raise (HTTPException 500 ''Database connection failed''))"

text \<open>
  \<^verbatim>\<open>create_user_in_database\<close>. \<open>user_id\<close> is the value of \<^verbatim>\<open>str(uuid.uuid4())\<close> and
  \<open>now\<close> that of \<^verbatim>\<open>datetime.utcnow()\<close> in this call; \<open>str_of\<close> is \<^verbatim>\<open>str\<close> on exceptions.
  The handler reads \<^verbatim>\<open>conn\<close>, which is bound only once \<^verbatim>\<open>get_db_connection\<close> has
  returned; a connection object is always true.
\<close>

definition new_row :: "config \<Rightarrow> string \<Rightarrow> datetime \<Rightarrow> pyval \<Rightarrow> pyval \<Rightarrow> pyval \<Rightarrow> pyval \<Rightarrow> user_row" where
  "new_row cfg user_id now cid em nm pic =
     \<lparr>row_id = user_id, cognito_user_id = cid, email = em, name = nm, picture_url = pic,
      provider = DEFAULT_PROVIDER cfg, created_at = now, updated_at = now,
      is_active = True, onboarding_completed = False, preferences = ''{}''\<rparr>"

definition create_user_except ::
  "(exn \<Rightarrow> string) \<Rightarrow> (nat \<Rightarrow> string option) \<Rightarrow> unit option \<Rightarrow> exn \<Rightarrow> string io" where
  "create_user_except str_of fault conn e =
     (case conn of
        None \<Rightarrow> raise (UnboundLocalError ''conn'')
      | Some c \<Rightarrow>
          bind (db fault Rollback) (\<lambda>_.
          bind (db fault ConnClose) (\<lambda>_.
          raise (HTTPException 500 (''Error creating user: '' @ str_of e)))))"

definition create_user_in_database ::
  "config \<Rightarrow> (exn \<Rightarrow> string) \<Rightarrow> (nat \<Rightarrow> string option) \<Rightarrow> string \<Rightarrow> datetime \<Rightarrow>
   pyval \<Rightarrow> pyval \<Rightarrow> pyval \<Rightarrow> pyval \<Rightarrow> string io" where
  "create_user_in_database cfg str_of fault user_id now cid em nm pic w =
     (case get_db_connection fault w of
        (Inl e, w') \<Rightarrow> create_user_except str_of fault None e w'
      | (Inr conn, w') \<Rightarrow>
          try_except
            (bind (db fault Cursor) (\<lambda>cursor.
             bind (db fault (Execute (InsertUser (new_row cfg user_id now cid em nm pic)))) (\<lambda>_.
             bind (db fault Commit) (\<lambda>_.
             bind (db fault CursorClose) (\<lambda>_.
             bind (db fault ConnClose) (\<lambda>_.
             return user_id))))))
            (create_user_except str_of fault (Some conn)) w')"

text \<open>
  \<^verbatim>\<open>health_check\<close>. \<open>timestamp\<close> is \<^verbatim>\<open>datetime.utcnow().isoformat()\<close> at the return.
\<close>

definition health_check :: "(exn \<Rightarrow> string) \<Rightarrow> (nat \<Rightarrow> string option) \<Rightarrow> string \<Rightarrow> pyval io" where
  "health_check str_of fault timestamp =
     try_except
       (bind (get_db_connection fault) (\<lambda>conn.
        bind (db fault Cursor) (\<lambda>cursor.
        bind (db fault (Execute Select1)) (\<lambda>_.
        bind (db fault Fetchone) (\<lambda>result.
        bind (db fault CursorClose) (\<lambda>_.
        bind (db fault ConnClose) (\<lambda>_.
        return (PyDict [(''status'', PyStr ''healthy''),
                        (''database'', PyStr ''connected''),
                        (''timestamp'', PyStr timestamp)]))))))))
       (\<lambda>e. return (PyDict [(''status'', PyStr ''unhealthy''),
                            (''database'', PyStr ''disconnected''),
                            (''error'', PyStr (str_of e)),
                            (''timestamp'', PyStr timestamp)]))"

text \<open>
  \<^verbatim>\<open>cognito_post_confirmation\<close>. \<open>loaded\<close> is the outcome of
  \<^verbatim>\<open>json.loads(body.decode('utf-8'))\<close>: the value, or the exception raised. The first
  \<^verbatim>\<open>except\<close> clause takes a \<^verbatim>\<open>json.JSONDecodeError\<close>, the second every other exception
  raised in the body of the \<^verbatim>\<open>try\<close>, an \<open>HTTPException\<close> included.
\<close>

definition lift :: "exn + 'a \<Rightarrow> 'a io" where
  "lift r w = (r, w)"

definition cognito_post_confirmation ::
  "config \<Rightarrow> (exn \<Rightarrow> string) \<Rightarrow> (nat \<Rightarrow> string option) \<Rightarrow> string \<Rightarrow> datetime \<Rightarrow>
   exn + pyval \<Rightarrow> pyval io" where
  "cognito_post_confirmation cfg str_of fault uuid4 now loaded =
     try_except
       (bind (lift loaded) (\<lambda>event_data.
        bind (lift (py_get event_data ''triggerSource'' PyNone)) (\<lambda>trigger.
        if trigger \<noteq> PyStr (TRIGGER_SOURCE cfg)
        then return (PyDict [(''statusCode'', PyInt 200), (''body'', PyStr ''Event ignored'')])
        else
        bind (lift (py_get event_data ''userName'' (PyStr ''''))) (\<lambda>cid.
        bind (lift (py_get event_data ''request'' (PyDict []))) (\<lambda>request.
        bind (lift (py_get request ''userAttributes'' (PyDict []))) (\<lambda>user_attributes.
        bind (lift (py_get user_attributes ''email'' (PyStr ''''))) (\<lambda>em.
        bind (lift (py_get user_attributes ''name'' (PyStr ''''))) (\<lambda>nm.
        bind (lift (py_get user_attributes ''picture'' (PyStr ''''))) (\<lambda>pic.
        if \<not> truthy em \<or> \<not> truthy cid
        then raise (HTTPException 400 ''Missing required user data'')
        else
        bind (create_user_in_database cfg str_of fault uuid4 now cid em nm pic) (\<lambda>user_id.
        return (PyDict [(''statusCode'', PyInt 200),
                        (''body'', PyDict [(''message'', PyStr ''User created successfully''),
                                           (''user_id'', PyStr user_id),
                                           (''email'', em)])])))))))))))
       (\<lambda>e. case e of
               JSONDecodeError m \<Rightarrow> raise (HTTPException 400 ''Invalid JSON'')
             | _ \<Rightarrow> raise (HTTPException 500 (''Internal server error: '' @ str_of e)))"

text \<open>
  What the framework sends for the outcome of a handler: a returned dict is the body of a
  200 response, a raised \<open>HTTPException\<close> gives its status code and its detail, and any
  other exception that leaves the handler is the server's own 500.
\<close>

datatype response = Response nat pyval

fun respond :: "exn + pyval \<Rightarrow> response" where
  "respond (Inr body) = Response 200 body"
| "respond (Inl (HTTPException status detail)) = Response status (PyDict [(''detail'', PyStr detail)])"
| "respond (Inl e) = Response 500 (PyStr ''Internal Server Error'')"

fun status_code :: "response \<Rightarrow> nat" where
  "status_code (Response status body) = status"

section \<open>Runs and concrete inputs\<close>

text \<open>
  A run of reconciliations of one \<^verbatim>\<open>cognito_user_id\<close>, one call after the other; each call
  has its own generated id, its own clock reading and its own attributes.
\<close>

record reconcile_call =
  call_uuid :: string
  call_now :: datetime
  call_email :: pyval
  call_name :: pyval
  call_picture :: pyval

definition reconcile ::
  "config \<Rightarrow> (exn \<Rightarrow> string) \<Rightarrow> (nat \<Rightarrow> string option) \<Rightarrow> pyval \<Rightarrow> reconcile_call \<Rightarrow> string io" where
  "reconcile cfg str_of fault cid c =
     create_user_in_database cfg str_of fault (call_uuid c) (call_now c) cid
       (call_email c) (call_name c) (call_picture c)"

fun reconcile_all ::
  "config \<Rightarrow> (exn \<Rightarrow> string) \<Rightarrow> (nat \<Rightarrow> string option) \<Rightarrow> pyval \<Rightarrow> reconcile_call list \<Rightarrow>
   world \<Rightarrow> world" where
  "reconcile_all cfg str_of fault cid [] w = w"
| "reconcile_all cfg str_of fault cid (c # cs) w =
     reconcile_all cfg str_of fault cid cs (snd (reconcile cfg str_of fault cid c w))"

text \<open>The defaults of the settings, a database with no rows, and a driver that never fails.\<close>

definition default_config :: config where
  "default_config =
     \<lparr>TRIGGER_SOURCE = ''PostConfirmation_ConfirmSignUp'', DEFAULT_PROVIDER = ''google''\<rparr>"

definition initial_world :: world where
  "initial_world = \<lparr>users = [], pending = None, open_conns = 0, calls = []\<rparr>"

definition no_fault :: "nat \<Rightarrow> string option" where
  "no_fault n = None"

definition fault_at :: "nat \<Rightarrow> string \<Rightarrow> nat \<Rightarrow> string option" where
  "fault_at k msg n = (if n = k then Some msg else None)"

text \<open>
  \<^verbatim>\<open>str\<close> on the exceptions, as the interpreter and the libraries define it: the
  \<open>HTTPException\<close> of the framework prints its status code, a colon and its detail; an
  \<^verbatim>\<open>AttributeError\<close> and an \<^verbatim>\<open>UnboundLocalError\<close> (in the wording of CPython 3.11) quote
  the names; the other exceptions print the message they were raised with.
\<close>

function decimal :: "nat \<Rightarrow> string" where
  "decimal n =
     (if n < 10 then [''0123456789'' ! n]
      else decimal (n div 10) @ [''0123456789'' ! (n mod 10)])"
  by pat_completeness auto
termination
  by (relation "measure id") auto

declare decimal.simps [simp del]

definition quoted :: "string \<Rightarrow> string" where
  "quoted s = [CHR 0x27] @ s @ [CHR 0x27]"

fun py_str :: "exn \<Rightarrow> string" where
  "py_str (HTTPException status detail) = decimal status @ '': '' @ detail"
| "py_str (JSONDecodeError m) = m"
| "py_str (UnicodeDecodeError m) = m"
| "py_str (AttributeError t a) = quoted t @ '' object has no attribute '' @ quoted a"
| "py_str (UnboundLocalError v) =
     ''cannot access local variable '' @ quoted v @ '' where it is not associated with a value''"
| "py_str (Psycopg2Error m) = m"

text \<open>Two calls for the identity \<^verbatim>\<open>u1\<close>, with different attributes.\<close>

definition first_call :: reconcile_call where
  "first_call = \<lparr>call_uuid = ''id-1'', call_now = 1, call_email = PyStr ''a@b.com'',
     call_name = PyStr ''A'', call_picture = PyStr ''http://x/p.jpg''\<rparr>"

definition second_call :: reconcile_call where
  "second_call = \<lparr>call_uuid = ''id-2'', call_now = 2, call_email = PyStr ''c@d.com'',
     call_name = PyStr ''C'', call_picture = PyStr ''http://x/q.jpg''\<rparr>"

text \<open>
  The payload of the end-to-end scenario, and the two bodies the webhook returns.
\<close>

definition sample_event :: pyval where
  "sample_event =
     PyDict [(''triggerSource'', PyStr ''PostConfirmation_ConfirmSignUp''),
             (''userName'', PyStr ''u1''),
             (''request'', PyDict [(''userAttributes'',
                PyDict [(''email'', PyStr ''a@b.com''), (''name'', PyStr ''A''),
                        (''picture'', PyStr ''http://x/p.jpg'')])])]"

definition created :: "string \<Rightarrow> pyval \<Rightarrow> pyval" where
  "created user_id em =
     PyDict [(''statusCode'', PyInt 200),
             (''body'', PyDict [(''message'', PyStr ''User created successfully''),
                                (''user_id'', PyStr user_id),
                                (''email'', em)])]"

definition ignored :: pyval where
  "ignored = PyDict [(''statusCode'', PyInt 200), (''body'', PyStr ''Event ignored'')]"

text \<open>
  The two bodies \<^verbatim>\<open>health_check\<close> returns, and the calls of its probe in their order.
\<close>

definition healthy :: "string \<Rightarrow> pyval" where
  "healthy timestamp =
     PyDict [(''status'', PyStr ''healthy''), (''database'', PyStr ''connected''),
             (''timestamp'', PyStr timestamp)]"

definition unhealthy :: "string \<Rightarrow> string \<Rightarrow> pyval" where
  "unhealthy err timestamp =
     PyDict [(''status'', PyStr ''unhealthy''), (''database'', PyStr ''disconnected''),
             (''error'', PyStr err), (''timestamp'', PyStr timestamp)]"

definition probe_calls :: "db_call list" where
  "probe_calls = [Connect, Cursor, Execute Select1, Fetchone, CursorClose, ConnClose]"

section \<open>The upsert and the table\<close>

lemmas io_defs = bind_def return_def raise_def try_except_def lift_def db_def

lemma decimal_400 [simp]: "decimal 400 = ''400''"
  by (simp add: decimal.simps)

lemma decimal_500 [simp]: "decimal 500 = ''500''"
  by (simp add: decimal.simps)

lemma create_user_success:
  assumes "create_user_in_database cfg s f u now cid em nm pic w = (Inr uid, w')"
  shows "uid = u \<and> users w' = insert_user (new_row cfg u now cid em nm pic) (users w)
     \<and> open_conns w' = open_conns w"
  using assms
  by (auto simp: create_user_in_database_def get_db_connection_def create_user_except_def
        io_defs Let_def split: option.splits sum.splits prod.splits if_splits)

lemma create_user_users:
  "users (snd (create_user_in_database cfg s f u now cid em nm pic w)) = users w \<or>
   users (snd (create_user_in_database cfg s f u now cid em nm pic w)) =
     insert_user (new_row cfg u now cid em nm pic) (users w)"
  by (auto simp: create_user_in_database_def get_db_connection_def create_user_except_def
        io_defs Let_def split: option.splits sum.splits prod.splits if_splits)

lemma key_on_conflict_update [simp]:
  "cognito_user_id (on_conflict_update new r) = cognito_user_id r"
  by (simp add: on_conflict_update_def)

lemma insert_user_keys:
  "map cognito_user_id (insert_user new rows) =
     (if cognito_user_id new \<in> set (map cognito_user_id rows) then map cognito_user_id rows
      else map cognito_user_id rows @ [cognito_user_id new])"
  by (auto simp: insert_user_def list_ex_iff intro: rev_image_eqI)

lemma insert_user_distinct:
  "distinct (map cognito_user_id rows) \<Longrightarrow> distinct (map cognito_user_id (insert_user new rows))"
  by (simp add: insert_user_keys)

lemma filter_key_distinct:
  "distinct (map k xs) \<Longrightarrow> x \<in> set xs \<Longrightarrow> filter (\<lambda>y. k y = k x) xs = [x]"
proof (induction xs)
  case Nil
  then show ?case by simp
next
  case (Cons a xs)
  show ?case
  proof (cases "a = x")
    case True
    with Cons.prems have "\<forall>y\<in>set xs. k y \<noteq> k x" by (auto intro: rev_image_eqI)
    then have "filter (\<lambda>y. k y = k x) xs = []" by (simp add: filter_empty_conv)
    with True show ?thesis by simp
  next
    case False
    with Cons.prems have "x \<in> set xs" "k a \<noteq> k x" by auto
    with Cons show ?thesis by simp
  qed
qed

lemma insert_user_member:
  "\<exists>r \<in> set (insert_user new rows). cognito_user_id r = cognito_user_id new \<and> email r = email new \<and>
      name r = name new \<and> picture_url r = picture_url new \<and> updated_at r = updated_at new"
proof (cases "list_ex (\<lambda>r. cognito_user_id r = cognito_user_id new) rows")
  case True
  then obtain r where "r \<in> set rows" "cognito_user_id r = cognito_user_id new"
    by (auto simp: list_ex_iff)
  then have "on_conflict_update new r \<in> set (insert_user new rows)"
    using True by (force simp: insert_user_def)
  then show ?thesis
    using \<open>cognito_user_id r = cognito_user_id new\<close>
    by (intro bexI [of _ "on_conflict_update new r"]) (simp_all add: on_conflict_update_def)
next
  case False
  then show ?thesis by (simp add: insert_user_def)
qed

lemma insert_user_one:
  assumes "distinct (map cognito_user_id rows)"
  shows "\<exists>r. filter (\<lambda>x. cognito_user_id x = cognito_user_id new) (insert_user new rows) = [r] \<and>
     email r = email new \<and> name r = name new \<and> picture_url r = picture_url new \<and>
     updated_at r = updated_at new"
proof -
  obtain r where r: "r \<in> set (insert_user new rows)" "cognito_user_id r = cognito_user_id new"
    "email r = email new" "name r = name new" "picture_url r = picture_url new"
    "updated_at r = updated_at new"
    using insert_user_member by blast
  have "distinct (map cognito_user_id (insert_user new rows))"
    using assms by (rule insert_user_distinct)
  from filter_key_distinct [OF this r(1)] r show ?thesis by simp
qed

lemma create_user_distinct:
  "distinct (map cognito_user_id (users w)) \<Longrightarrow>
   distinct (map cognito_user_id (users (snd (create_user_in_database cfg s f u now cid em nm pic w))))"
  using create_user_users [of cfg s f u now cid em nm pic w] insert_user_distinct by metis

lemma reconcile_all_distinct:
  "distinct (map cognito_user_id (users w)) \<Longrightarrow>
   distinct (map cognito_user_id (users (reconcile_all cfg s f cid cs w)))"
  by (induction cs arbitrary: w) (simp_all add: reconcile_def create_user_distinct)

lemma distinct_filter_le1:
  "distinct (map k xs) \<Longrightarrow> length (filter (\<lambda>y. k y = c) xs) \<le> 1"
  by (induction xs) (auto simp: filter_empty_conv intro: rev_image_eqI)

lemmas eval_defs = reconcile_def create_user_in_database_def get_db_connection_def create_user_except_def
   io_defs no_fault_def initial_world_def Let_def first_call_def second_call_def insert_user_def
   new_row_def on_conflict_update_def default_config_def

lemma insert_user_conflict:
  "list_ex (\<lambda>r. cognito_user_id r = cognito_user_id new) rows \<Longrightarrow>
   insert_user new rows =
     map (\<lambda>r. if cognito_user_id r = cognito_user_id new then on_conflict_update new r else r) rows"
  by (simp add: insert_user_def)

lemma on_conflict_update_frame:
  "row_id (on_conflict_update new r) = row_id r \<and>
   provider (on_conflict_update new r) = provider r \<and>
   created_at (on_conflict_update new r) = created_at r \<and>
   is_active (on_conflict_update new r) = is_active r \<and>
   onboarding_completed (on_conflict_update new r) = onboarding_completed r \<and>
   preferences (on_conflict_update new r) = preferences r"
  by (simp add: on_conflict_update_def)

lemmas webhook_defs = cognito_post_confirmation_def io_defs

lemmas health_defs = health_check_def get_db_connection_def io_defs

text \<open>
  A failure of one of the five calls after the connection was acquired, with the rollback
  and the close of the handler succeeding; \<open>k\<close> is the index of the rollback.
\<close>

lemma create_user_failure:
  assumes "fault n = None" "n = length (calls w)"
    and "fault (Suc n) = Some msg \<and> k = Suc (Suc n) \<or>
         fault (Suc n) = None \<and> fault (Suc (Suc n)) = Some msg \<and> k = Suc (Suc (Suc n)) \<or>
         fault (Suc n) = None \<and> fault (Suc (Suc n)) = None \<and> fault (Suc (Suc (Suc n))) = Some msg \<and>
           k = Suc (Suc (Suc (Suc n))) \<or>
         fault (Suc n) = None \<and> fault (Suc (Suc n)) = None \<and> fault (Suc (Suc (Suc n))) = None \<and>
           fault (Suc (Suc (Suc (Suc n)))) = Some msg \<and> k = Suc (Suc (Suc (Suc (Suc n)))) \<or>
         fault (Suc n) = None \<and> fault (Suc (Suc n)) = None \<and> fault (Suc (Suc (Suc n))) = None \<and>
           fault (Suc (Suc (Suc (Suc n)))) = None \<and> fault (Suc (Suc (Suc (Suc (Suc n))))) = Some msg \<and>
           k = Suc (Suc (Suc (Suc (Suc (Suc n)))))"
    and "fault k = None" "fault (Suc k) = None"
  shows "fst (create_user_in_database cfg str_of fault u now cid em nm pic w) =
           Inl (HTTPException 500 (''Error creating user: '' @ str_of (Psycopg2Error msg))) \<and>
         open_conns (snd (create_user_in_database cfg str_of fault u now cid em nm pic w)) = open_conns w"
  using assms
  by (auto simp: create_user_in_database_def get_db_connection_def create_user_except_def io_defs)

text \<open>
  The other failure point of \<^verbatim>\<open>create_user_in_database\<close>: once the connection is
  acquired, when the \<open>j\<close>-th of the five calls that follow is the first to fail and the
  rollback and the close of the handler succeed, the function raises a 500 whose detail is
  \<^verbatim>\<open>Error creating user: \<close> followed by the text of that failure.
\<close>

lemma upsert_failure_surfaces_cause:
  "(fault (length (calls w)) = Some m \<longrightarrow>
      fst (get_db_connection fault w) = Inl (HTTPException 500 ''Database connection failed'')) \<and>
   (fault (length (calls w)) = None \<and> 1 \<le> j \<and> j \<le> 5 \<and>
    (\<forall>i. 1 \<le> i \<and> i < j \<longrightarrow> fault (length (calls w) + i) = None) \<and>
    fault (length (calls w) + j) = Some msg \<and>
    fault (length (calls w) + j + 1) = None \<and> fault (length (calls w) + j + 2) = None \<longrightarrow>
      fst (create_user_in_database cfg str_of fault u now cid em nm pic w) =
        Inl (HTTPException 500 (''Error creating user: '' @ str_of (Psycopg2Error msg))) \<and>
      open_conns (snd (create_user_in_database cfg str_of fault u now cid em nm pic w)) = open_conns w)"
proof (intro conjI impI)
  assume "fault (length (calls w)) = Some m"
  then show "fst (get_db_connection fault w) = Inl (HTTPException 500 ''Database connection failed'')"
    by (simp add: get_db_connection_def io_defs)
next
  let ?n = "length (calls w)"
  let ?k = "Suc (?n + j)"
  assume a: "fault ?n = None \<and> 1 \<le> j \<and> j \<le> 5 \<and>
    (\<forall>i. 1 \<le> i \<and> i < j \<longrightarrow> fault (?n + i) = None) \<and>
    fault (?n + j) = Some msg \<and> fault (?n + j + 1) = None \<and> fault (?n + j + 2) = None"
  then have b: "\<And>i. 1 \<le> i \<Longrightarrow> i < j \<Longrightarrow> fault (?n + i) = None" by blast
  from a have "j = 1 \<or> j = 2 \<or> j = 3 \<or> j = 4 \<or> j = 5" by arith
  then have which:
        "fault (Suc ?n) = Some msg \<and> ?k = Suc (Suc ?n) \<or>
         fault (Suc ?n) = None \<and> fault (Suc (Suc ?n)) = Some msg \<and> ?k = Suc (Suc (Suc ?n)) \<or>
         fault (Suc ?n) = None \<and> fault (Suc (Suc ?n)) = None \<and> fault (Suc (Suc (Suc ?n))) = Some msg \<and>
           ?k = Suc (Suc (Suc (Suc ?n))) \<or>
         fault (Suc ?n) = None \<and> fault (Suc (Suc ?n)) = None \<and> fault (Suc (Suc (Suc ?n))) = None \<and>
           fault (Suc (Suc (Suc (Suc ?n)))) = Some msg \<and> ?k = Suc (Suc (Suc (Suc (Suc ?n)))) \<or>
         fault (Suc ?n) = None \<and> fault (Suc (Suc ?n)) = None \<and> fault (Suc (Suc (Suc ?n))) = None \<and>
           fault (Suc (Suc (Suc (Suc ?n)))) = None \<and> fault (Suc (Suc (Suc (Suc (Suc ?n))))) = Some msg \<and>
           ?k = Suc (Suc (Suc (Suc (Suc (Suc ?n)))))"
    using a b [of 1] b [of 2] b [of 3] b [of 4]
    by (elim disjE) (simp_all add: eval_nat_numeral)
  have h1: "fault ?k = None" and h2: "fault (Suc ?k) = None"
    using a by (simp_all add: eval_nat_numeral)
  have c: "fault ?n = None" using a by simp
  note res = create_user_failure [OF c refl which h1 h2, of cfg str_of u now cid em nm pic]
  from res show "fst (create_user_in_database cfg str_of fault u now cid em nm pic w) =
        Inl (HTTPException 500 (''Error creating user: '' @ str_of (Psycopg2Error msg)))" ..
  from res show "open_conns (snd (create_user_in_database cfg str_of fault u now cid em nm pic w)) =
        open_conns w" ..
qed


lemma upsert_failure_example:
  "fst (get_db_connection (fault_at 0 ''connection refused'') initial_world) =
     Inl (HTTPException 500 ''Database connection failed'') \<and>
   fst (create_user_in_database default_config py_str (fault_at 2 ''value too long'') ''id-1'' 1
         (PyStr ''u1'') (PyStr ''a@b.com'') (PyStr ''A'') (PyStr ''http://x/p.jpg'') initial_world) =
     Inl (HTTPException 500 ''Error creating user: value too long'') \<and>
   open_conns (snd (create_user_in_database default_config py_str (fault_at 2 ''value too long'') ''id-1'' 1
         (PyStr ''u1'') (PyStr ''a@b.com'') (PyStr ''A'') (PyStr ''http://x/p.jpg'') initial_world)) = 0"
proof -
  have n: "length (calls initial_world) = 0" by (simp add: initial_world_def)
  have a: "fault_at 0 ''connection refused'' (length (calls initial_world)) = Some ''connection refused''"
    by (simp add: fault_at_def n)
  have b: "fault_at 2 ''value too long'' (length (calls initial_world)) = None \<and> (1::nat) \<le> 2 \<and> (2::nat) \<le> 5 \<and>
    (\<forall>i. 1 \<le> i \<and> i < 2 \<longrightarrow> fault_at 2 ''value too long'' (length (calls initial_world) + i) = None) \<and>
    fault_at 2 ''value too long'' (length (calls initial_world) + 2) = Some ''value too long'' \<and>
    fault_at 2 ''value too long'' (length (calls initial_world) + 2 + 1) = None \<and>
    fault_at 2 ''value too long'' (length (calls initial_world) + 2 + 2) = None"
    by (simp add: fault_at_def n)
  have o: "open_conns initial_world = 0" by (simp add: initial_world_def)
  have 1: "fst (get_db_connection (fault_at 0 ''connection refused'') initial_world) =
     Inl (HTTPException 500 ''Database connection failed'')"
    using upsert_failure_surfaces_cause [of "fault_at 0 ''connection refused''" initial_world
       "''connection refused''"] a by blast
  have 2: "fst (create_user_in_database default_config py_str (fault_at 2 ''value too long'') ''id-1'' 1
         (PyStr ''u1'') (PyStr ''a@b.com'') (PyStr ''A'') (PyStr ''http://x/p.jpg'') initial_world) =
        Inl (HTTPException 500 (''Error creating user: '' @ py_str (Psycopg2Error ''value too long''))) \<and>
      open_conns (snd (create_user_in_database default_config py_str (fault_at 2 ''value too long'') ''id-1'' 1
         (PyStr ''u1'') (PyStr ''a@b.com'') (PyStr ''A'') (PyStr ''http://x/p.jpg'') initial_world)) =
        open_conns initial_world"
    using upsert_failure_surfaces_cause [of "fault_at 2 ''value too long''" initial_world _ 2
       "''value too long''" default_config py_str "''id-1''" 1
       "PyStr ''u1''" "PyStr ''a@b.com''" "PyStr ''A''" "PyStr ''http://x/p.jpg''"] b by blast
  from 1 2 o show ?thesis by simp
qed

subsection \<open>The health check, case by case\<close>

lemma plus_small:
  "n + 3 = Suc (Suc (Suc n))" "n + 4 = Suc (Suc (Suc (Suc n)))"
  "n + 5 = Suc (Suc (Suc (Suc (Suc n))))"
  by simp_all

lemma all_less_6_gen:
  "(\<forall>i<6. P (i::nat)) \<longleftrightarrow> P 0 \<and> P 1 \<and> P 2 \<and> P 3 \<and> P 4 \<and> P 5"
  by (simp add: eval_nat_numeral All_less_Suc conj_ac)

lemma all_less_6:
  "(\<forall>i<6. fault (n + i) = None) \<longleftrightarrow>
     fault n = None \<and> fault (Suc n) = None \<and> fault (Suc (Suc n)) = None \<and>
     fault (Suc (Suc (Suc n))) = None \<and> fault (Suc (Suc (Suc (Suc n)))) = None \<and>
     fault (Suc (Suc (Suc (Suc (Suc n))))) = None"
  by (simp add: all_less_6_gen [of "\<lambda>i. fault (n + i) = None"] plus_small)

lemma prefix_none:
  "\<forall>i<j. fault (n + i) = None \<Longrightarrow> k < j \<Longrightarrow> fault (n + k) = None"
  by simp

lemma health_check_connect_fails:
  "fault (length (calls w)) = Some m \<Longrightarrow>
   health_check str_of fault ts w =
     (Inr (unhealthy (str_of (HTTPException 500 ''Database connection failed'')) ts),
      w\<lparr>calls := calls w @ [Connect]\<rparr>)"
  by (simp add: health_defs unhealthy_def)

lemma health_check_all_succeed:
  "\<forall>i<6. fault (length (calls w) + i) = None \<Longrightarrow>
   calls (snd (health_check str_of fault ts w)) = calls w @ probe_calls \<and>
   open_conns (snd (health_check str_of fault ts w)) = open_conns w"
  unfolding all_less_6
  by (simp add: health_defs probe_calls_def)

lemma health_check_later_failure:
  assumes "1 \<le> j" "j \<le> 5"
    and "\<forall>i<j. fault (length (calls w) + i) = None"
    and "fault (length (calls w) + j) = Some m"
  shows "fst (health_check str_of fault ts w) = Inr (unhealthy (str_of (Psycopg2Error m)) ts) \<and>
         calls (snd (health_check str_of fault ts w)) = calls w @ take (Suc j) probe_calls"
proof -
  let ?n = "length (calls w)"
  note p = prefix_none [OF assms(3)]
  from assms(1,2) consider "j = 1" | "j = 2" | "j = 3" | "j = 4" | "j = 5" by arith
  then show ?thesis
  proof cases
    case 1
    with assms(4) p [of 0] show ?thesis
      by (simp add: health_defs unhealthy_def probe_calls_def)
  next
    case 2
    with assms(4) p [of 0] p [of 1] show ?thesis
      by (simp add: health_defs unhealthy_def probe_calls_def)
  next
    case 3
    with assms(4) p [of 0] p [of 1] p [of 2] show ?thesis
      by (simp add: health_defs unhealthy_def probe_calls_def plus_small)
  next
    case 4
    with assms(4) p [of 0] p [of 1] p [of 2] p [of 3] show ?thesis
      by (simp add: health_defs unhealthy_def probe_calls_def plus_small)
  next
    case 5
    with assms(4) p [of 0] p [of 1] p [of 2] p [of 3] p [of 4] show ?thesis
      by (simp add: health_defs unhealthy_def probe_calls_def plus_small)
  qed
qed

lemma health_check_healthy_iff:
  "fst (health_check str_of fault ts w) = Inr (healthy ts) \<longleftrightarrow>
   (\<forall>i<6. fault (length (calls w) + i) = None)"
proof
  assume ok: "\<forall>i<6. fault (length (calls w) + i) = None"
  then show "fst (health_check str_of fault ts w) = Inr (healthy ts)"
    unfolding all_less_6 by (simp add: health_defs healthy_def)
next
  let ?n = "length (calls w)"
  assume h: "fst (health_check str_of fault ts w) = Inr (healthy ts)"
  show "\<forall>i<6. fault (?n + i) = None"
  proof (rule ccontr)
    assume "\<not> (\<forall>i<6. fault (?n + i) = None)"
    then have "\<exists>j. j < 6 \<and> fault (?n + j) \<noteq> None" by blast
    then obtain j where j: "j < 6" "fault (?n + j) \<noteq> None"
      and least: "\<forall>i<j. \<not> (i < 6 \<and> fault (?n + i) \<noteq> None)"
      using exists_least_iff [of "\<lambda>j. j < 6 \<and> fault (?n + j) \<noteq> None"] by blast
    from j obtain m where m: "fault (?n + j) = Some m" by blast
    from least j(1) have before: "\<forall>i<j. fault (?n + i) = None" by auto
    show False
    proof (cases "j = 0")
      case True
      with m have "fault ?n = Some m" by simp
      with health_check_connect_fails [of fault w m str_of ts] h show False
        by (simp add: healthy_def unhealthy_def)
    next
      case False
      with j(1) have "1 \<le> j" "j \<le> 5" by simp_all
      from health_check_later_failure [of j fault w m str_of ts] this before m h show False
        by (simp add: healthy_def unhealthy_def)
    qed
  qed
qed

lemma health_check_body:
  "status_code (respond (fst (health_check str_of fault ts w))) = 200 \<and>
   (fst (health_check str_of fault ts w) = Inr (healthy ts) \<or>
    (\<exists>e. fst (health_check str_of fault ts w) = Inr (unhealthy (str_of e) ts)))"
  by (auto simp: health_defs healthy_def unhealthy_def Let_def split: option.splits)

subsection \<open>The webhook past its checks\<close>

lemma create_user_no_json_error:
  "fst (create_user_in_database cfg str_of fault user_id now cid em nm pic w) \<noteq> Inl (JSONDecodeError m)"
  by (auto simp: create_user_in_database_def get_db_connection_def create_user_except_def
        io_defs Let_def split: option.splits)

lemma webhook_accepted:
  assumes "map_of kvs ''triggerSource'' = Some (PyStr (TRIGGER_SOURCE cfg))"
    and "py_get (PyDict kvs) ''userName'' (PyStr '''') = Inr cid"
    and "py_get (PyDict kvs) ''request'' (PyDict []) = Inr (PyDict req)"
    and "py_get (PyDict req) ''userAttributes'' (PyDict []) = Inr (PyDict attrs)"
    and "py_get (PyDict attrs) ''email'' (PyStr '''') = Inr em"
    and "py_get (PyDict attrs) ''name'' (PyStr '''') = Inr nm"
    and "py_get (PyDict attrs) ''picture'' (PyStr '''') = Inr pic"
    and "truthy em" "truthy cid"
  shows "cognito_post_confirmation cfg str_of fault uuid4 now (Inr (PyDict kvs)) w =
     (case create_user_in_database cfg str_of fault uuid4 now cid em nm pic w of
        (Inr user_id, w') \<Rightarrow> (Inr (created user_id em), w')
      | (Inl e, w') \<Rightarrow> (Inl (HTTPException 500 (''Internal server error: '' @ str_of e)), w'))"
proof -
  obtain r w' where run: "create_user_in_database cfg str_of fault uuid4 now cid em nm pic w = (r, w')"
    by (cases "create_user_in_database cfg str_of fault uuid4 now cid em nm pic w")
  have nj: "\<And>m. r \<noteq> Inl (JSONDecodeError m)"
    using create_user_no_json_error [of cfg str_of fault uuid4 now cid em nm pic w] run by simp
  have pre: "cognito_post_confirmation cfg str_of fault uuid4 now (Inr (PyDict kvs)) w =
     try_except
       (bind (create_user_in_database cfg str_of fault uuid4 now cid em nm pic) (\<lambda>user_id.
          return (created user_id em)))
       (\<lambda>e. case e of
               JSONDecodeError m \<Rightarrow> raise (HTTPException 400 ''Invalid JSON'')
             | _ \<Rightarrow> raise (HTTPException 500 (''Internal server error: '' @ str_of e))) w"
    using assms
    by (simp add: cognito_post_confirmation_def bind_def lift_def try_except_def return_def
          raise_def created_def)
  show ?thesis
  proof (cases r)
    case (Inr uid)
    with run pre show ?thesis by (simp add: try_except_def bind_def return_def)
  next
    case (Inl e)
    with nj have "\<forall>m. e \<noteq> JSONDecodeError m" by simp
    with Inl run pre show ?thesis
      by (cases e) (auto simp: try_except_def bind_def return_def raise_def)
  qed
qed

lemma webhook_request_not_dict:
  assumes "map_of kvs ''triggerSource'' = Some (PyStr (TRIGGER_SOURCE cfg))"
    and "py_get (PyDict kvs) ''request'' (PyDict []) = Inr r"
    and "\<forall>x. r \<noteq> PyDict x"
  shows "cognito_post_confirmation cfg str_of fault uuid4 now (Inr (PyDict kvs)) w =
     (Inl (HTTPException 500 (''Internal server error: '' @
             str_of (AttributeError (type_name r) ''get''))), w)"
  using assms by (cases r) (auto simp: webhook_defs)

lemma webhook_attributes_not_dict:
  assumes "map_of kvs ''triggerSource'' = Some (PyStr (TRIGGER_SOURCE cfg))"
    and "py_get (PyDict kvs) ''request'' (PyDict []) = Inr (PyDict req)"
    and "py_get (PyDict req) ''userAttributes'' (PyDict []) = Inr a"
    and "\<forall>x. a \<noteq> PyDict x"
  shows "cognito_post_confirmation cfg str_of fault uuid4 now (Inr (PyDict kvs)) w =
     (Inl (HTTPException 500 (''Internal server error: '' @
             str_of (AttributeError (type_name a) ''get''))), w)"
  using assms by (cases a) (auto simp: webhook_defs)

section \<open>Claims\<close>

text \<open>
  C2. After any run of reconciliations of one \<^verbatim>\<open>cognito_user_id\<close>, started on a table
  that satisfies the uniqueness constraint of the conflict target, the table holds at
  most one row of that identity, whatever failed on the way; and when the most recent call
  returned, it holds exactly one, whose \<^verbatim>\<open>email\<close>, \<^verbatim>\<open>name\<close>, \<^verbatim>\<open>picture_url\<close> and
  \<^verbatim>\<open>updated_at\<close> are those of that call.
\<close>

theorem one_record_per_identity:
  assumes uniq: "distinct (map cognito_user_id (users w))"
  shows "length (filter (\<lambda>x. cognito_user_id x = cid) (users (reconcile_all cfg s f cid cs w))) \<le> 1 \<and>
     (\<forall>c uid w'. reconcile cfg s f cid c (reconcile_all cfg s f cid cs w) = (Inr uid, w') \<longrightarrow>
        (\<exists>r. filter (\<lambda>x. cognito_user_id x = cid) (users w') = [r] \<and>
           email r = call_email c \<and> name r = call_name c \<and> picture_url r = call_picture c \<and>
           updated_at r = call_now c))"
proof (intro conjI allI impI)
  have d: "distinct (map cognito_user_id (users (reconcile_all cfg s f cid cs w)))"
    using uniq by (rule reconcile_all_distinct)
  then show "length (filter (\<lambda>x. cognito_user_id x = cid) (users (reconcile_all cfg s f cid cs w))) \<le> 1"
    by (rule distinct_filter_le1)
  fix c uid w'
  assume run: "reconcile cfg s f cid c (reconcile_all cfg s f cid cs w) = (Inr uid, w')"
  let ?new = "new_row cfg (call_uuid c) (call_now c) cid (call_email c) (call_name c) (call_picture c)"
  from run have "users w' = insert_user ?new (users (reconcile_all cfg s f cid cs w))"
    unfolding reconcile_def by (auto dest: create_user_success)
  with insert_user_one [OF d, of ?new]
  show "\<exists>r. filter (\<lambda>x. cognito_user_id x = cid) (users w') = [r] \<and>
           email r = call_email c \<and> name r = call_name c \<and> picture_url r = call_picture c \<and>
           updated_at r = call_now c"
    by (simp add: new_row_def)
qed

theorem one_record_per_identity_witness:
  "distinct (map cognito_user_id (users initial_world)) \<and>
   fst (reconcile default_config py_str no_fault (PyStr ''u1'') second_call
         (reconcile_all default_config py_str no_fault (PyStr ''u1'') [first_call] initial_world))
     = Inr ''id-2'' \<and>
   (\<exists>r. filter (\<lambda>x. cognito_user_id x = PyStr ''u1'')
          (users (snd (reconcile default_config py_str no_fault (PyStr ''u1'') second_call
             (reconcile_all default_config py_str no_fault (PyStr ''u1'') [first_call] initial_world)))) = [r] \<and>
        email r = PyStr ''c@d.com'' \<and> name r = PyStr ''C'' \<and>
        picture_url r = PyStr ''http://x/q.jpg'' \<and> updated_at r = 2)"
proof -
  let ?w1 = "reconcile_all default_config py_str no_fault (PyStr ''u1'') [first_call] initial_world"
  let ?run = "reconcile default_config py_str no_fault (PyStr ''u1'') second_call ?w1"
  have d: "distinct (map cognito_user_id (users initial_world))"
    by (simp add: initial_world_def)
  have r: "fst ?run = Inr ''id-2''"
    by (simp add: eval_defs)
  then have run: "?run = (Inr ''id-2'', snd ?run)"
    by (simp add: prod_eq_iff)
  from one_record_per_identity [OF d, of "PyStr ''u1''" default_config py_str no_fault "[first_call]"]
  have "\<exists>r. filter (\<lambda>x. cognito_user_id x = PyStr ''u1'') (users (snd ?run)) = [r] \<and>
           email r = call_email second_call \<and> name r = call_name second_call \<and>
           picture_url r = call_picture second_call \<and> updated_at r = call_now second_call"
    using run by blast
  then show ?thesis
    using d r by (simp add: second_call_def)
qed

text \<open>
  C4. When a row with the same \<^verbatim>\<open>cognito_user_id\<close> exists, a call adds no row and, whatever
  its outcome, leaves \<^verbatim>\<open>id\<close>, \<^verbatim>\<open>cognito_user_id\<close>, \<^verbatim>\<open>provider\<close>, \<^verbatim>\<open>created_at\<close>,
  \<^verbatim>\<open>is_active\<close>, \<^verbatim>\<open>onboarding_completed\<close> and \<^verbatim>\<open>preferences\<close> of every row as they were
  and the rows of other identities untouched; when it returns, the row of the identity is
  the old row with \<^verbatim>\<open>email\<close>, \<^verbatim>\<open>name\<close>, \<^verbatim>\<open>picture_url\<close> and \<^verbatim>\<open>updated_at\<close> replaced.
\<close>

theorem update_path_frame:
  assumes present: "list_ex (\<lambda>r. cognito_user_id r = cid) (users w)"
  shows "length (users (snd (create_user_in_database cfg s f u now cid em nm pic w))) = length (users w) \<and>
    (\<forall>i < length (users w).
       row_id (users (snd (create_user_in_database cfg s f u now cid em nm pic w)) ! i) = row_id (users w ! i) \<and>
       cognito_user_id (users (snd (create_user_in_database cfg s f u now cid em nm pic w)) ! i) = cognito_user_id (users w ! i) \<and>
       provider (users (snd (create_user_in_database cfg s f u now cid em nm pic w)) ! i) = provider (users w ! i) \<and>
       created_at (users (snd (create_user_in_database cfg s f u now cid em nm pic w)) ! i) = created_at (users w ! i) \<and>
       is_active (users (snd (create_user_in_database cfg s f u now cid em nm pic w)) ! i) = is_active (users w ! i) \<and>
       onboarding_completed (users (snd (create_user_in_database cfg s f u now cid em nm pic w)) ! i) = onboarding_completed (users w ! i) \<and>
       preferences (users (snd (create_user_in_database cfg s f u now cid em nm pic w)) ! i) = preferences (users w ! i) \<and>
       (cognito_user_id (users w ! i) \<noteq> cid \<longrightarrow>
          users (snd (create_user_in_database cfg s f u now cid em nm pic w)) ! i = users w ! i) \<and>
       (cognito_user_id (users w ! i) = cid \<and>
        fst (create_user_in_database cfg s f u now cid em nm pic w) = Inr u \<longrightarrow>
          users (snd (create_user_in_database cfg s f u now cid em nm pic w)) ! i =
            (users w ! i)\<lparr>email := em, name := nm, picture_url := pic, updated_at := now\<rparr>))"
proof -
  let ?new = "new_row cfg u now cid em nm pic"
  let ?run = "create_user_in_database cfg s f u now cid em nm pic w"
  have key: "cognito_user_id ?new = cid" by (simp add: new_row_def)
  have ins: "insert_user ?new (users w) =
      map (\<lambda>r. if cognito_user_id r = cid then on_conflict_update ?new r else r) (users w)"
    using insert_user_conflict [of ?new "users w"] present by (simp add: key)
  have ok: "fst ?run = Inr u \<Longrightarrow> users (snd ?run) = insert_user ?new (users w)"
    using create_user_success [of cfg s f u now cid em nm pic w u "snd ?run"]
    by (simp add: prod_eq_iff)
  consider (same) "users (snd ?run) = users w" "fst ?run \<noteq> Inr u"
    | (upd) "users (snd ?run) = insert_user ?new (users w)"
    using create_user_users [of cfg s f u now cid em nm pic w] ok by blast
  then show ?thesis
  proof cases
    case same
    then show ?thesis by simp
  next
    case upd
    then show ?thesis
      by (simp add: ins on_conflict_update_frame) (simp add: on_conflict_update_def new_row_def)
  qed
qed

theorem update_path_frame_witness:
  "list_ex (\<lambda>r. cognito_user_id r = PyStr ''u1'')
     (users (reconcile_all default_config py_str no_fault (PyStr ''u1'') [first_call] initial_world)) \<and>
   users (reconcile_all default_config py_str no_fault (PyStr ''u1'') [first_call] initial_world) =
     [new_row default_config ''id-1'' 1 (PyStr ''u1'') (PyStr ''a@b.com'') (PyStr ''A'') (PyStr ''http://x/p.jpg'')] \<and>
   users (snd (create_user_in_database default_config py_str no_fault ''id-2'' 2 (PyStr ''u1'')
       (PyStr ''c@d.com'') (PyStr ''C'') (PyStr ''http://x/q.jpg'')
       (reconcile_all default_config py_str no_fault (PyStr ''u1'') [first_call] initial_world))) =
     [(new_row default_config ''id-1'' 1 (PyStr ''u1'') (PyStr ''a@b.com'') (PyStr ''A'') (PyStr ''http://x/p.jpg''))
        \<lparr>email := PyStr ''c@d.com'', name := PyStr ''C'', picture_url := PyStr ''http://x/q.jpg'',
         updated_at := 2\<rparr>]"
proof -
  let ?w = "reconcile_all default_config py_str no_fault (PyStr ''u1'') [first_call] initial_world"
  let ?run = "create_user_in_database default_config py_str no_fault ''id-2'' 2 (PyStr ''u1'')
       (PyStr ''c@d.com'') (PyStr ''C'') (PyStr ''http://x/q.jpg'') ?w"
  have w: "users ?w = [new_row default_config ''id-1'' 1 (PyStr ''u1'') (PyStr ''a@b.com'') (PyStr ''A'') (PyStr ''http://x/p.jpg'')]"
    by (simp add: eval_defs)
  have present: "list_ex (\<lambda>r. cognito_user_id r = PyStr ''u1'') (users ?w)"
    unfolding w by (simp add: new_row_def)
  have ok: "fst ?run = Inr ''id-2''"
    by (simp add: eval_defs)
  have len: "length (users (snd ?run)) = 1"
    using update_path_frame [OF present, of default_config py_str no_fault "''id-2''" 2
        "PyStr ''c@d.com''" "PyStr ''C''" "PyStr ''http://x/q.jpg''"] w by simp
  have row: "users (snd ?run) ! 0 = (users ?w ! 0)\<lparr>email := PyStr ''c@d.com'', name := PyStr ''C'',
         picture_url := PyStr ''http://x/q.jpg'', updated_at := 2\<rparr>"
    using update_path_frame [OF present, of default_config py_str no_fault "''id-2''" 2
        "PyStr ''c@d.com''" "PyStr ''C''" "PyStr ''http://x/q.jpg''"] w ok
    by (simp add: new_row_def)
  from len obtain x where x: "users (snd ?run) = [x]"
    by (cases "users (snd ?run)") simp_all
  with row w have "x = (new_row default_config ''id-1'' 1 (PyStr ''u1'') (PyStr ''a@b.com'') (PyStr ''A'') (PyStr ''http://x/p.jpg''))
        \<lparr>email := PyStr ''c@d.com'', name := PyStr ''C'', picture_url := PyStr ''http://x/q.jpg'',
         updated_at := 2\<rparr>" by simp
  with x present w show ?thesis by simp
qed

text \<open>
  C1. The value returned for a reconciliation is the id generated in that call, also when
  the row of the identity already exists: the same payload sent twice, with no failure of
  the driver, is answered with the first generated id and then with the second, while the
  only stored row keeps the first.
\<close>

theorem same_payload_twice_new_user_id:
  "fst (cognito_post_confirmation default_config str_of no_fault u1 n1 (Inr sample_event) initial_world) =
     Inr (created u1 (PyStr ''a@b.com'')) \<and>
   fst (cognito_post_confirmation default_config str_of no_fault u2 n2 (Inr sample_event)
         (snd (cognito_post_confirmation default_config str_of no_fault u1 n1 (Inr sample_event) initial_world))) =
     Inr (created u2 (PyStr ''a@b.com'')) \<and>
   map row_id (users (snd (cognito_post_confirmation default_config str_of no_fault u2 n2 (Inr sample_event)
         (snd (cognito_post_confirmation default_config str_of no_fault u1 n1 (Inr sample_event) initial_world))))) =
     [u1]"
  by (simp add: webhook_defs eval_defs sample_event_def created_def)

theorem same_payload_twice_new_user_id_witness:
  "fst (cognito_post_confirmation default_config py_str no_fault ''id-2'' 2 (Inr sample_event)
         (snd (cognito_post_confirmation default_config py_str no_fault ''id-1'' 1 (Inr sample_event) initial_world))) \<noteq>
   fst (cognito_post_confirmation default_config py_str no_fault ''id-1'' 1 (Inr sample_event) initial_world)"
  using same_payload_twice_new_user_id [of py_str "''id-1''" 1 "''id-2''" 2]
  by (simp add: created_def)

text \<open>
  C3. An event with the accepted \<^verbatim>\<open>triggerSource\<close> whose \<^verbatim>\<open>email\<close> or \<^verbatim>\<open>userName\<close> is
  missing or empty raises the 400 inside the \<^verbatim>\<open>try\<close>, where the last \<^verbatim>\<open>except\<close> clause
  takes it: the handler ends with status 500 and the text of the 400 in the detail. No
  call reaches the driver.
\<close>

theorem missing_fields_answered_500:
  assumes trig: "map_of kvs ''triggerSource'' = Some (PyStr (TRIGGER_SOURCE cfg))"
      and req: "map_of kvs ''request'' = Some (PyDict req)"
      and attrs: "map_of req ''userAttributes'' = Some (PyDict attrs)"
      and missing: "\<not> truthy (case map_of attrs ''email'' of None \<Rightarrow> PyStr '''' | Some v \<Rightarrow> v) \<or>
                    \<not> truthy (case map_of kvs ''userName'' of None \<Rightarrow> PyStr '''' | Some v \<Rightarrow> v)"
  shows "cognito_post_confirmation cfg str_of fault uuid4 now (Inr (PyDict kvs)) w =
           (Inl (HTTPException 500 (''Internal server error: '' @
                   str_of (HTTPException 400 ''Missing required user data''))), w) \<and>
         status_code (respond (fst (cognito_post_confirmation cfg str_of fault uuid4 now (Inr (PyDict kvs)) w))) = 500"
  using assms
  by (auto simp: webhook_defs)


theorem missing_fields_answered_500_witness:
  "respond (fst (cognito_post_confirmation default_config py_str no_fault ''id-1'' 1
      (Inr (PyDict [(''triggerSource'', PyStr ''PostConfirmation_ConfirmSignUp''),
                    (''userName'', PyStr ''u1''),
                    (''request'', PyDict [(''userAttributes'', PyDict [(''name'', PyStr ''A'')])])]))
      initial_world)) =
     Response 500 (PyDict [(''detail'', PyStr ''Internal server error: 400: Missing required user data'')]) \<and>
   calls (snd (cognito_post_confirmation default_config py_str no_fault ''id-1'' 1
      (Inr (PyDict [(''triggerSource'', PyStr ''PostConfirmation_ConfirmSignUp''),
                    (''userName'', PyStr ''u1''),
                    (''request'', PyDict [(''userAttributes'', PyDict [(''name'', PyStr ''A'')])])]))
      initial_world)) = []"
proof -
  let ?attrs = "[(''name'', PyStr ''A'')]"
  let ?req = "[(''userAttributes'', PyDict ?attrs)]"
  let ?kvs = "[(''triggerSource'', PyStr ''PostConfirmation_ConfirmSignUp''),
               (''userName'', PyStr ''u1''), (''request'', PyDict ?req)]"
  have trig: "map_of ?kvs ''triggerSource'' = Some (PyStr (TRIGGER_SOURCE default_config))"
    by (simp add: default_config_def)
  have req: "map_of ?kvs ''request'' = Some (PyDict ?req)" by simp
  have attrs: "map_of ?req ''userAttributes'' = Some (PyDict ?attrs)" by simp
  have missing: "\<not> truthy (case map_of ?attrs ''email'' of None \<Rightarrow> PyStr [] | Some v \<Rightarrow> v) \<or>
                 \<not> truthy (case map_of ?kvs ''userName'' of None \<Rightarrow> PyStr [] | Some v \<Rightarrow> v)"
    by simp
  from missing_fields_answered_500 [OF trig req attrs missing, of py_str no_fault "''id-1''" 1 initial_world]
  show ?thesis by (simp add: initial_world_def)
qed

text \<open>
  C5. A dict whose \<^verbatim>\<open>triggerSource\<close> is absent or differs from the accepted value is
  answered 200 with the body \<^verbatim>\<open>Event ignored\<close>, whatever else it holds, and the world
  is left as it was: the comparison comes before any other field is read.
\<close>

theorem other_trigger_ignored:
  assumes "map_of kvs ''triggerSource'' \<noteq> Some (PyStr (TRIGGER_SOURCE cfg))"
  shows "cognito_post_confirmation cfg str_of fault uuid4 now (Inr (PyDict kvs)) w = (Inr ignored, w) \<and>
         respond (fst (cognito_post_confirmation cfg str_of fault uuid4 now (Inr (PyDict kvs)) w)) =
           Response 200 (PyDict [(''statusCode'', PyInt 200), (''body'', PyStr ''Event ignored'')])"
  using assms
  by (auto simp: webhook_defs ignored_def split: option.splits)

theorem other_trigger_ignored_witness:
  "map_of [(''triggerSource'', PyStr ''PreSignUp_SignUp''), (''userName'', PyInt 0), (''request'', PyStr ''garbage'')]
      ''triggerSource'' \<noteq> Some (PyStr (TRIGGER_SOURCE default_config)) \<and>
   cognito_post_confirmation default_config py_str no_fault ''id-1'' 1
     (Inr (PyDict [(''triggerSource'', PyStr ''PreSignUp_SignUp''), (''userName'', PyInt 0), (''request'', PyStr ''garbage'')]))
     initial_world = (Inr ignored, initial_world) \<and>
   calls (snd (cognito_post_confirmation default_config py_str no_fault ''id-1'' 1
     (Inr (PyDict [(''triggerSource'', PyStr ''PreSignUp_SignUp''), (''userName'', PyInt 0), (''request'', PyStr ''garbage'')]))
     initial_world)) = []"
proof -
  have h: "map_of [(''triggerSource'', PyStr ''PreSignUp_SignUp''), (''userName'', PyInt 0), (''request'', PyStr ''garbage'')]
      ''triggerSource'' \<noteq> Some (PyStr (TRIGGER_SOURCE default_config))"
    by (simp add: default_config_def)
  from other_trigger_ignored [OF h, of py_str no_fault "''id-1''" 1 initial_world] h
  show ?thesis by (simp add: initial_world_def)
qed

text \<open>
  C8. The claim as stated fails for a body that is not UTF-8: decoding raises
  \<^verbatim>\<open>UnicodeDecodeError\<close>, which the first \<^verbatim>\<open>except\<close> clause does not take, and the answer
  is 500.
\<close>

theorem invalid_utf8_counterexample:
  "respond (fst (cognito_post_confirmation default_config py_str no_fault ''id-1'' 1
      (Inl (UnicodeDecodeError
         (quoted ''utf-8'' @ '' codec can't decode byte 0xff in position 0: invalid start byte'')))
      initial_world)) =
   Response 500
     (PyDict [(''detail'', PyStr (''Internal server error: '' @ quoted ''utf-8'' @
        '' codec can't decode byte 0xff in position 0: invalid start byte''))])"
  by (simp add: webhook_defs)

text \<open>
  C8, amended. When \<^verbatim>\<open>json.loads\<close> raises \<^verbatim>\<open>JSONDecodeError\<close> the answer is 400 with
  the detail \<^verbatim>\<open>Invalid JSON\<close>; and whatever exception the decoding raises, the world is
  left as it was, so the reconciler is not invoked.
\<close>

theorem invalid_json_rejected:
  "cognito_post_confirmation cfg str_of fault uuid4 now (Inl (JSONDecodeError m)) w =
     (Inl (HTTPException 400 ''Invalid JSON''), w) \<and>
   respond (fst (cognito_post_confirmation cfg str_of fault uuid4 now (Inl (JSONDecodeError m)) w)) =
     Response 400 (PyDict [(''detail'', PyStr ''Invalid JSON'')]) \<and>
   snd (cognito_post_confirmation cfg str_of fault uuid4 now (Inl e) w) = w"
  by (cases e) (simp_all add: webhook_defs)

theorem invalid_json_rejected_witness:
  "respond (fst (cognito_post_confirmation default_config py_str no_fault ''id-1'' 1
      (Inl (JSONDecodeError ''Expecting value: line 1 column 1 (char 0)'')) initial_world)) =
     Response 400 (PyDict [(''detail'', PyStr ''Invalid JSON'')]) \<and>
   calls (snd (cognito_post_confirmation default_config py_str no_fault ''id-1'' 1
      (Inl (JSONDecodeError ''Expecting value: line 1 column 1 (char 0)'')) initial_world)) = []"
  using invalid_json_rejected [of default_config py_str no_fault "''id-1''" 1
     "''Expecting value: line 1 column 1 (char 0)''" initial_world
     "JSONDecodeError ''Expecting value: line 1 column 1 (char 0)''"]
  by (simp add: initial_world_def)

text \<open>
  C10. A decoded value that is not a dict is answered 500 with the \<^verbatim>\<open>AttributeError\<close> in
  the detail; a dict without \<^verbatim>\<open>triggerSource\<close> is answered as an ignored event; the
  outcome for a dict depends on its keys \<^verbatim>\<open>triggerSource\<close>, \<^verbatim>\<open>userName\<close> and
  \<^verbatim>\<open>request\<close> alone, so none of the other fields of \<^verbatim>\<open>CognitoEvent\<close> is required;
  and an event with the accepted \<^verbatim>\<open>triggerSource\<close> whose \<^verbatim>\<open>email\<close> and \<^verbatim>\<open>userName\<close>
  are present and not empty goes to \<^verbatim>\<open>create_user_in_database\<close> with the values read,
  \<^verbatim>\<open>name\<close> and \<^verbatim>\<open>picture\<close> empty when absent, and is answered with its outcome. A
  \<^verbatim>\<open>request\<close> or \<^verbatim>\<open>userAttributes\<close> that is not a dict raises \<^verbatim>\<open>AttributeError\<close> like a
  body that is not a dict.
\<close>

theorem no_schema_enforced:
  "((\<forall>kvs. v \<noteq> PyDict kvs) \<longrightarrow>
      cognito_post_confirmation cfg str_of fault uuid4 now (Inr v) w =
        (Inl (HTTPException 500 (''Internal server error: '' @
                str_of (AttributeError (type_name v) ''get''))), w)) \<and>
   (map_of kvs0 ''triggerSource'' = None \<longrightarrow>
      cognito_post_confirmation cfg str_of fault uuid4 now (Inr (PyDict kvs0)) w = (Inr ignored, w)) \<and>
   (map_of kvs ''triggerSource'' = map_of kvs' ''triggerSource'' \<and>
    map_of kvs ''userName'' = map_of kvs' ''userName'' \<and>
    map_of kvs ''request'' = map_of kvs' ''request'' \<longrightarrow>
      cognito_post_confirmation cfg str_of fault uuid4 now (Inr (PyDict kvs)) w =
      cognito_post_confirmation cfg str_of fault uuid4 now (Inr (PyDict kvs')) w) \<and>
   (map_of kvs1 ''triggerSource'' = Some (PyStr (TRIGGER_SOURCE cfg)) \<and>
    py_get (PyDict kvs1) ''userName'' (PyStr '''') = Inr cid \<and>
    py_get (PyDict kvs1) ''request'' (PyDict []) = Inr (PyDict req) \<and>
    py_get (PyDict req) ''userAttributes'' (PyDict []) = Inr (PyDict attrs) \<and>
    py_get (PyDict attrs) ''email'' (PyStr '''') = Inr em \<and>
    py_get (PyDict attrs) ''name'' (PyStr '''') = Inr nm \<and>
    py_get (PyDict attrs) ''picture'' (PyStr '''') = Inr pic \<and>
    truthy em \<and> truthy cid \<longrightarrow>
      cognito_post_confirmation cfg str_of fault uuid4 now (Inr (PyDict kvs1)) w =
        (case create_user_in_database cfg str_of fault uuid4 now cid em nm pic w of
           (Inr user_id, w') \<Rightarrow> (Inr (created user_id em), w')
         | (Inl e, w') \<Rightarrow>
             (Inl (HTTPException 500 (''Internal server error: '' @ str_of e)), w'))) \<and>
   (map_of kvs2 ''triggerSource'' = Some (PyStr (TRIGGER_SOURCE cfg)) \<and>
    py_get (PyDict kvs2) ''request'' (PyDict []) = Inr r \<and> (\<forall>x. r \<noteq> PyDict x) \<longrightarrow>
      cognito_post_confirmation cfg str_of fault uuid4 now (Inr (PyDict kvs2)) w =
        (Inl (HTTPException 500 (''Internal server error: '' @
                str_of (AttributeError (type_name r) ''get''))), w)) \<and>
   (map_of kvs3 ''triggerSource'' = Some (PyStr (TRIGGER_SOURCE cfg)) \<and>
    py_get (PyDict kvs3) ''request'' (PyDict []) = Inr (PyDict req3) \<and>
    py_get (PyDict req3) ''userAttributes'' (PyDict []) = Inr a \<and> (\<forall>x. a \<noteq> PyDict x) \<longrightarrow>
      cognito_post_confirmation cfg str_of fault uuid4 now (Inr (PyDict kvs3)) w =
        (Inl (HTTPException 500 (''Internal server error: '' @
                str_of (AttributeError (type_name a) ''get''))), w))"
proof (intro conjI impI)
  assume "\<forall>kvs. v \<noteq> PyDict kvs"
  then show "cognito_post_confirmation cfg str_of fault uuid4 now (Inr v) w =
        (Inl (HTTPException 500 (''Internal server error: '' @
                str_of (AttributeError (type_name v) ''get''))), w)"
    by (cases v) (simp_all add: webhook_defs)
next
  assume "map_of kvs0 ''triggerSource'' = None"
  then show "cognito_post_confirmation cfg str_of fault uuid4 now (Inr (PyDict kvs0)) w = (Inr ignored, w)"
    by (simp add: webhook_defs ignored_def)
next
  assume "map_of kvs ''triggerSource'' = map_of kvs' ''triggerSource'' \<and>
    map_of kvs ''userName'' = map_of kvs' ''userName'' \<and>
    map_of kvs ''request'' = map_of kvs' ''request''"
  then show "cognito_post_confirmation cfg str_of fault uuid4 now (Inr (PyDict kvs)) w =
      cognito_post_confirmation cfg str_of fault uuid4 now (Inr (PyDict kvs')) w"
    by (simp add: webhook_defs)
next
  assume "map_of kvs1 ''triggerSource'' = Some (PyStr (TRIGGER_SOURCE cfg)) \<and>
    py_get (PyDict kvs1) ''userName'' (PyStr '''') = Inr cid \<and>
    py_get (PyDict kvs1) ''request'' (PyDict []) = Inr (PyDict req) \<and>
    py_get (PyDict req) ''userAttributes'' (PyDict []) = Inr (PyDict attrs) \<and>
    py_get (PyDict attrs) ''email'' (PyStr '''') = Inr em \<and>
    py_get (PyDict attrs) ''name'' (PyStr '''') = Inr nm \<and>
    py_get (PyDict attrs) ''picture'' (PyStr '''') = Inr pic \<and>
    truthy em \<and> truthy cid"
  then show "cognito_post_confirmation cfg str_of fault uuid4 now (Inr (PyDict kvs1)) w =
        (case create_user_in_database cfg str_of fault uuid4 now cid em nm pic w of
           (Inr user_id, w') \<Rightarrow> (Inr (created user_id em), w')
         | (Inl e, w') \<Rightarrow>
             (Inl (HTTPException 500 (''Internal server error: '' @ str_of e)), w'))"
    by (intro webhook_accepted [where req = req and attrs = attrs]) blast+
next
  assume "map_of kvs2 ''triggerSource'' = Some (PyStr (TRIGGER_SOURCE cfg)) \<and>
    py_get (PyDict kvs2) ''request'' (PyDict []) = Inr r \<and> (\<forall>x. r \<noteq> PyDict x)"
  then show "cognito_post_confirmation cfg str_of fault uuid4 now (Inr (PyDict kvs2)) w =
        (Inl (HTTPException 500 (''Internal server error: '' @
                str_of (AttributeError (type_name r) ''get''))), w)"
    by (intro webhook_request_not_dict) blast+
next
  assume "map_of kvs3 ''triggerSource'' = Some (PyStr (TRIGGER_SOURCE cfg)) \<and>
    py_get (PyDict kvs3) ''request'' (PyDict []) = Inr (PyDict req3) \<and>
    py_get (PyDict req3) ''userAttributes'' (PyDict []) = Inr a \<and> (\<forall>x. a \<noteq> PyDict x)"
  then show "cognito_post_confirmation cfg str_of fault uuid4 now (Inr (PyDict kvs3)) w =
        (Inl (HTTPException 500 (''Internal server error: '' @
                str_of (AttributeError (type_name a) ''get''))), w)"
    by (intro webhook_attributes_not_dict [where req = req3]) blast+
qed

theorem no_schema_enforced_witness:
  "respond (fst (cognito_post_confirmation default_config py_str no_fault ''id-1'' 1
      (Inr (PyList [])) initial_world)) =
     Response 500 (PyDict [(''detail'', PyStr (''Internal server error: '' @ quoted ''list'' @
        '' object has no attribute '' @ quoted ''get''))]) \<and>
   cognito_post_confirmation default_config py_str no_fault ''id-1'' 1
      (Inr (PyDict [(''userName'', PyStr ''u1'')])) initial_world = (Inr ignored, initial_world) \<and>
   cognito_post_confirmation default_config py_str no_fault ''id-1'' 1
      (Inr (PyDict [(''version'', PyStr ''1''), (''region'', PyStr ''us-east-1''),
                    (''userPoolId'', PyStr ''us-east-1_MeClCiUAC''),
                    (''userName'', PyStr ''u1''), (''callerContext'', PyDict []),
                    (''triggerSource'', PyStr ''PostConfirmation_ConfirmSignUp''),
                    (''request'', PyDict [(''userAttributes'',
                       PyDict [(''email'', PyStr ''a@b.com''), (''name'', PyStr ''A''),
                               (''picture'', PyStr ''http://x/p.jpg'')])]),
                    (''response'', PyDict [])])) initial_world =
   cognito_post_confirmation default_config py_str no_fault ''id-1'' 1 (Inr sample_event) initial_world \<and>
   fst (cognito_post_confirmation default_config py_str no_fault ''id-1'' 1 (Inr sample_event) initial_world) =
     Inr (created ''id-1'' (PyStr ''a@b.com'')) \<and>
   fst (cognito_post_confirmation default_config py_str no_fault ''id-1'' 1
      (Inr (PyDict [(''triggerSource'', PyStr ''PostConfirmation_ConfirmSignUp''),
                    (''userName'', PyStr ''u1''),
                    (''request'', PyDict [(''userAttributes'', PyDict [(''email'', PyStr ''a@b.com'')])])]))
      initial_world) = Inr (created ''id-1'' (PyStr ''a@b.com'')) \<and>
   users (snd (cognito_post_confirmation default_config py_str no_fault ''id-1'' 1
      (Inr (PyDict [(''triggerSource'', PyStr ''PostConfirmation_ConfirmSignUp''),
                    (''userName'', PyStr ''u1''),
                    (''request'', PyDict [(''userAttributes'', PyDict [(''email'', PyStr ''a@b.com'')])])]))
      initial_world)) =
     [new_row default_config ''id-1'' 1 (PyStr ''u1'') (PyStr ''a@b.com'') (PyStr '''') (PyStr '''')] \<and>
   respond (fst (cognito_post_confirmation default_config py_str no_fault ''id-1'' 1
      (Inr (PyDict [(''triggerSource'', PyStr ''PostConfirmation_ConfirmSignUp''),
                    (''userName'', PyStr ''u1''), (''request'', PyStr ''x'')]))
      initial_world)) =
     Response 500 (PyDict [(''detail'', PyStr (''Internal server error: '' @ quoted ''str'' @
        '' object has no attribute '' @ quoted ''get''))])"
proof -
  let ?full = "[(''version'', PyStr ''1''), (''region'', PyStr ''us-east-1''),
                    (''userPoolId'', PyStr ''us-east-1_MeClCiUAC''),
                    (''userName'', PyStr ''u1''), (''callerContext'', PyDict []),
                    (''triggerSource'', PyStr ''PostConfirmation_ConfirmSignUp''),
                    (''request'', PyDict [(''userAttributes'',
                       PyDict [(''email'', PyStr ''a@b.com''), (''name'', PyStr ''A''),
                               (''picture'', PyStr ''http://x/p.jpg'')])]),
                    (''response'', PyDict [])]"
  let ?bare = "[(''triggerSource'', PyStr ''PostConfirmation_ConfirmSignUp''),
             (''userName'', PyStr ''u1''),
             (''request'', PyDict [(''userAttributes'',
                PyDict [(''email'', PyStr ''a@b.com''), (''name'', PyStr ''A''),
                        (''picture'', PyStr ''http://x/p.jpg'')])])]"
  let ?attrs = "[(''email'', PyStr ''a@b.com'')]"
  let ?req = "[(''userAttributes'', PyDict ?attrs)]"
  let ?only = "[(''triggerSource'', PyStr ''PostConfirmation_ConfirmSignUp''),
                (''userName'', PyStr ''u1''), (''request'', PyDict ?req)]"
  let ?bad = "[(''triggerSource'', PyStr ''PostConfirmation_ConfirmSignUp''),
                (''userName'', PyStr ''u1''), (''request'', PyStr ''x'')]"
  note inst = no_schema_enforced [where v = "PyList []" and cfg = default_config and str_of = py_str
      and fault = no_fault and ?uuid4.0 = "''id-1''" and now = 1 and w = initial_world
      and ?kvs0.0 = "[(''userName'', PyStr ''u1'')]" and kvs = ?full and kvs' = ?bare
      and ?kvs1.0 = ?only and cid = "PyStr ''u1''" and req = ?req and attrs = ?attrs
      and em = "PyStr ''a@b.com''" and nm = "PyStr ''''" and pic = "PyStr ''''"
      and ?kvs2.0 = ?bad and r = "PyStr ''x''"]
  have a: "\<forall>kvs. PyList [] \<noteq> PyDict kvs" by simp
  have b: "map_of [(''userName'', PyStr ''u1'')] ''triggerSource'' = None" by simp
  have c: "map_of ?full ''triggerSource'' = map_of ?bare ''triggerSource'' \<and>
           map_of ?full ''userName'' = map_of ?bare ''userName'' \<and>
           map_of ?full ''request'' = map_of ?bare ''request''" by simp
  have d: "fst (cognito_post_confirmation default_config py_str no_fault ''id-1'' 1 (Inr sample_event) initial_world) =
     Inr (created ''id-1'' (PyStr ''a@b.com''))"
    by (simp add: webhook_defs eval_defs sample_event_def created_def)
  have e: "map_of ?only ''triggerSource'' = Some (PyStr (TRIGGER_SOURCE default_config)) \<and>
    py_get (PyDict ?only) ''userName'' (PyStr '''') = Inr (PyStr ''u1'') \<and>
    py_get (PyDict ?only) ''request'' (PyDict []) = Inr (PyDict ?req) \<and>
    py_get (PyDict ?req) ''userAttributes'' (PyDict []) = Inr (PyDict ?attrs) \<and>
    py_get (PyDict ?attrs) ''email'' (PyStr '''') = Inr (PyStr ''a@b.com'') \<and>
    py_get (PyDict ?attrs) ''name'' (PyStr '''') = Inr (PyStr '''') \<and>
    py_get (PyDict ?attrs) ''picture'' (PyStr '''') = Inr (PyStr '''') \<and>
    truthy (PyStr ''a@b.com'') \<and> truthy (PyStr ''u1'')"
    by (simp add: default_config_def)
  have f: "map_of ?bad ''triggerSource'' = Some (PyStr (TRIGGER_SOURCE default_config)) \<and>
    py_get (PyDict ?bad) ''request'' (PyDict []) = Inr (PyStr ''x'') \<and> (\<forall>x. PyStr ''x'' \<noteq> PyDict x)"
    by (simp add: default_config_def)
  have run: "create_user_in_database default_config py_str no_fault ''id-1'' 1 (PyStr ''u1'')
       (PyStr ''a@b.com'') (PyStr '''') (PyStr '''') initial_world =
     (Inr ''id-1'', initial_world\<lparr>users :=
        [new_row default_config ''id-1'' 1 (PyStr ''u1'') (PyStr ''a@b.com'') (PyStr '''') (PyStr '''')],
        calls := [Connect, Cursor,
          Execute (InsertUser (new_row default_config ''id-1'' 1 (PyStr ''u1'') (PyStr ''a@b.com'')
             (PyStr '''') (PyStr ''''))), Commit, CursorClose, ConnClose]\<rparr>)"
    by (simp add: eval_defs)
  from inst a have 1: "cognito_post_confirmation default_config py_str no_fault ''id-1'' 1
      (Inr (PyList [])) initial_world =
        (Inl (HTTPException 500 (''Internal server error: '' @
                py_str (AttributeError (type_name (PyList [])) ''get''))), initial_world)" by blast
  from inst b have 2: "cognito_post_confirmation default_config py_str no_fault ''id-1'' 1
      (Inr (PyDict [(''userName'', PyStr ''u1'')])) initial_world = (Inr ignored, initial_world)" by blast
  from inst c have 3: "cognito_post_confirmation default_config py_str no_fault ''id-1'' 1 (Inr (PyDict ?full)) initial_world =
      cognito_post_confirmation default_config py_str no_fault ''id-1'' 1 (Inr (PyDict ?bare)) initial_world" by blast
  from inst e have 4: "cognito_post_confirmation default_config py_str no_fault ''id-1'' 1 (Inr (PyDict ?only)) initial_world =
        (case create_user_in_database default_config py_str no_fault ''id-1'' 1 (PyStr ''u1'')
               (PyStr ''a@b.com'') (PyStr '''') (PyStr '''') initial_world of
           (Inr user_id, w') \<Rightarrow> (Inr (created user_id (PyStr ''a@b.com'')), w')
         | (Inl e, w') \<Rightarrow>
             (Inl (HTTPException 500 (''Internal server error: '' @ py_str e)), w'))" by blast
  from inst f have 5: "cognito_post_confirmation default_config py_str no_fault ''id-1'' 1 (Inr (PyDict ?bad)) initial_world =
        (Inl (HTTPException 500 (''Internal server error: '' @
                py_str (AttributeError (type_name (PyStr ''x'')) ''get''))), initial_world)" by blast
  from 4 run have 4: "cognito_post_confirmation default_config py_str no_fault ''id-1'' 1 (Inr (PyDict ?only)) initial_world =
     (Inr (created ''id-1'' (PyStr ''a@b.com'')), initial_world\<lparr>users :=
        [new_row default_config ''id-1'' 1 (PyStr ''u1'') (PyStr ''a@b.com'') (PyStr '''') (PyStr '''')],
        calls := [Connect, Cursor,
          Execute (InsertUser (new_row default_config ''id-1'' 1 (PyStr ''u1'') (PyStr ''a@b.com'')
             (PyStr '''') (PyStr ''''))), Commit, CursorClose, ConnClose]\<rparr>)"
    by simp
  show ?thesis
    unfolding 1 2 3 4 5 sample_event_def [symmetric]
    using d by (simp add: sample_event_def)
qed

text \<open>
  C6. When the connection cannot be acquired, \<^verbatim>\<open>get_db_connection\<close> raises its 500 and
  the handler of \<^verbatim>\<open>create_user_in_database\<close> then reads \<^verbatim>\<open>conn\<close>, which is unbound: for
  every input the function ends with \<^verbatim>\<open>UnboundLocalError\<close>, whatever the cause of the
  failure was, and not with a 500 that carries the cause.
\<close>

theorem connection_failure_unbound_conn:
  assumes "fault (length (calls w)) = Some m"
  shows "get_db_connection fault w =
           (Inl (HTTPException 500 ''Database connection failed''), w\<lparr>calls := calls w @ [Connect]\<rparr>) \<and>
         create_user_in_database cfg str_of fault user_id now cid em nm pic w =
           (Inl (UnboundLocalError ''conn''), w\<lparr>calls := calls w @ [Connect]\<rparr>)"
  using assms
  by (simp add: create_user_in_database_def get_db_connection_def create_user_except_def io_defs)

theorem connection_failure_unbound_conn_witness:
  "fault_at 0 ''connection refused'' (length (calls initial_world)) = Some ''connection refused'' \<and>
   fst (create_user_in_database default_config py_str (fault_at 0 ''connection refused'') ''id-1'' 1
         (PyStr ''u1'') (PyStr ''a@b.com'') (PyStr ''A'') (PyStr ''http://x/p.jpg'') initial_world) =
     Inl (UnboundLocalError ''conn'') \<and>
   respond (fst (cognito_post_confirmation default_config py_str (fault_at 0 ''connection refused'')
         ''id-1'' 1 (Inr sample_event) initial_world)) =
     Response 500 (PyDict [(''detail'', PyStr (''Internal server error: cannot access local variable '' @
        quoted ''conn'' @ '' where it is not associated with a value''))])"
proof -
  have a: "fault_at 0 ''connection refused'' (length (calls initial_world)) = Some ''connection refused''"
    by (simp add: fault_at_def initial_world_def)
  have b: "respond (fst (cognito_post_confirmation default_config py_str (fault_at 0 ''connection refused'')
         ''id-1'' 1 (Inr sample_event) initial_world)) =
     Response 500 (PyDict [(''detail'', PyStr (''Internal server error: cannot access local variable '' @
        quoted ''conn'' @ '' where it is not associated with a value''))])"
    by (simp add: webhook_defs eval_defs sample_event_def fault_at_def)
  from connection_failure_unbound_conn [where fault = "fault_at 0 ''connection refused''"
      and w = initial_world and m = "''connection refused''" and cfg = default_config
      and str_of = py_str and user_id = "''id-1''" and now = 1 and cid = "PyStr ''u1''"
      and em = "PyStr ''a@b.com''" and nm = "PyStr ''A''" and pic = "PyStr ''http://x/p.jpg''"] a b
  show ?thesis by simp
qed

text \<open>
  C7. In \<^verbatim>\<open>health_check\<close>, when the connection is acquired and \<^verbatim>\<open>SELECT 1\<close> fails, the
  handler returns the unhealthy body and no call closes the connection: one more
  connection is open than before.
\<close>

theorem health_check_leaves_connection_open:
  "fst (health_check str_of (fault_at (length (calls w) + 2) msg) ts w) =
     Inr (PyDict [(''status'', PyStr ''unhealthy''), (''database'', PyStr ''disconnected''),
                  (''error'', PyStr (str_of (Psycopg2Error msg))), (''timestamp'', PyStr ts)]) \<and>
   calls (snd (health_check str_of (fault_at (length (calls w) + 2) msg) ts w)) =
     calls w @ [Connect, Cursor, Execute Select1] \<and>
   open_conns (snd (health_check str_of (fault_at (length (calls w) + 2) msg) ts w)) =
     Suc (open_conns w)"
  by (simp add: health_defs fault_at_def)

text \<open>
  C9. \<^verbatim>\<open>health_check\<close> always returns a body, never an exception, so the answer is 200.
  The body is the healthy one exactly when all six calls of the probe succeed, and then
  the six calls were made and the connection is closed again. When the connection cannot
  be acquired the body is the unhealthy one with the text of the exception that
  \<^verbatim>\<open>get_db_connection\<close> raises under \<^verbatim>\<open>error\<close>; when the \<open>j\<close>-th of the later calls is
  the first to fail it is the unhealthy one with the text of that failure, and the calls
  made are those up to the failing one.
\<close>

theorem health_check_always_reports:
  "status_code (respond (fst (health_check str_of fault ts w))) = 200 \<and>
   (fst (health_check str_of fault ts w) = Inr (healthy ts) \<or>
    (\<exists>e. fst (health_check str_of fault ts w) = Inr (unhealthy (str_of e) ts))) \<and>
   (fst (health_check str_of fault ts w) = Inr (healthy ts) \<longleftrightarrow>
      (\<forall>i<6. fault (length (calls w) + i) = None)) \<and>
   ((\<forall>i<6. fault (length (calls w) + i) = None) \<longrightarrow>
      calls (snd (health_check str_of fault ts w)) = calls w @ probe_calls \<and>
      open_conns (snd (health_check str_of fault ts w)) = open_conns w) \<and>
   (fault (length (calls w)) = Some m \<longrightarrow>
      health_check str_of fault ts w =
        (Inr (unhealthy (str_of (HTTPException 500 ''Database connection failed'')) ts),
         w\<lparr>calls := calls w @ [Connect]\<rparr>)) \<and>
   (1 \<le> j \<and> j \<le> 5 \<and> (\<forall>i<j. fault (length (calls w) + i) = None) \<and>
    fault (length (calls w) + j) = Some m' \<longrightarrow>
      fst (health_check str_of fault ts w) = Inr (unhealthy (str_of (Psycopg2Error m')) ts) \<and>
      calls (snd (health_check str_of fault ts w)) = calls w @ take (Suc j) probe_calls)"
proof (intro conjI impI)
  show "status_code (respond (fst (health_check str_of fault ts w))) = 200"
    using health_check_body by blast
  show "fst (health_check str_of fault ts w) = Inr (healthy ts) \<or>
    (\<exists>e. fst (health_check str_of fault ts w) = Inr (unhealthy (str_of e) ts))"
    using health_check_body by blast
  show "fst (health_check str_of fault ts w) = Inr (healthy ts) \<longleftrightarrow>
      (\<forall>i<6. fault (length (calls w) + i) = None)"
    by (rule health_check_healthy_iff)
next
  assume ok: "\<forall>i<6. fault (length (calls w) + i) = None"
  from health_check_all_succeed [OF ok]
  show "calls (snd (health_check str_of fault ts w)) = calls w @ probe_calls"
    and "open_conns (snd (health_check str_of fault ts w)) = open_conns w"
    by blast+
next
  assume "fault (length (calls w)) = Some m"
  then show "health_check str_of fault ts w =
        (Inr (unhealthy (str_of (HTTPException 500 ''Database connection failed'')) ts),
         w\<lparr>calls := calls w @ [Connect]\<rparr>)"
    by (rule health_check_connect_fails)
next
  assume a: "1 \<le> j \<and> j \<le> 5 \<and> (\<forall>i<j. fault (length (calls w) + i) = None) \<and>
    fault (length (calls w) + j) = Some m'"
  then have "fst (health_check str_of fault ts w) = Inr (unhealthy (str_of (Psycopg2Error m')) ts) \<and>
      calls (snd (health_check str_of fault ts w)) = calls w @ take (Suc j) probe_calls"
    by (intro health_check_later_failure) simp_all
  then show "fst (health_check str_of fault ts w) = Inr (unhealthy (str_of (Psycopg2Error m')) ts)"
    and "calls (snd (health_check str_of fault ts w)) = calls w @ take (Suc j) probe_calls"
    by blast+
qed

theorem health_check_always_reports_witness:
  "health_check py_str no_fault ''2024-01-01T00:00:00'' initial_world =
     (Inr (healthy ''2024-01-01T00:00:00''), initial_world\<lparr>calls := probe_calls\<rparr>) \<and>
   health_check py_str (fault_at 0 ''connection refused'') ''2024-01-01T00:00:00'' initial_world =
     (Inr (unhealthy ''500: Database connection failed'' ''2024-01-01T00:00:00''),
      initial_world\<lparr>calls := [Connect]\<rparr>) \<and>
   fst (health_check py_str (fault_at 2 ''server closed the connection unexpectedly'')
         ''2024-01-01T00:00:00'' initial_world) =
     Inr (unhealthy ''server closed the connection unexpectedly'' ''2024-01-01T00:00:00'') \<and>
   calls (snd (health_check py_str (fault_at 2 ''server closed the connection unexpectedly'')
         ''2024-01-01T00:00:00'' initial_world)) = [Connect, Cursor, Execute Select1] \<and>
   status_code (respond (fst (health_check py_str (fault_at 0 ''connection refused'')
      ''2024-01-01T00:00:00'' initial_world))) = 200"
proof -
  let ?ts = "''2024-01-01T00:00:00''"
  let ?late = "fault_at 2 ''server closed the connection unexpectedly''"
  have n: "length (calls initial_world) = 0" by (simp add: initial_world_def)
  have ok: "\<forall>i<6. no_fault (length (calls initial_world) + i) = None"
    by (simp add: no_fault_def)
  have refused: "fault_at 0 ''connection refused'' (length (calls initial_world)) =
      Some ''connection refused''"
    by (simp add: fault_at_def n)
  have late: "(1::nat) \<le> 2 \<and> (2::nat) \<le> 5 \<and> (\<forall>i<2. ?late (length (calls initial_world) + i) = None) \<and>
      ?late (length (calls initial_world) + 2) = Some ''server closed the connection unexpectedly''"
    by (simp add: fault_at_def n)
  have 1: "fst (health_check py_str no_fault ?ts initial_world) = Inr (healthy ?ts) \<and>
      calls (snd (health_check py_str no_fault ?ts initial_world)) = calls initial_world @ probe_calls \<and>
      open_conns (snd (health_check py_str no_fault ?ts initial_world)) = open_conns initial_world"
    using health_check_always_reports [of py_str no_fault ?ts initial_world] ok by blast
  have 2: "health_check py_str (fault_at 0 ''connection refused'') ?ts initial_world =
        (Inr (unhealthy (py_str (HTTPException 500 ''Database connection failed'')) ?ts),
         initial_world\<lparr>calls := calls initial_world @ [Connect]\<rparr>)"
    using health_check_always_reports [of py_str "fault_at 0 ''connection refused''" ?ts initial_world
        "''connection refused''"] refused by blast
  have 3: "fst (health_check py_str ?late ?ts initial_world) =
        Inr (unhealthy (py_str (Psycopg2Error ''server closed the connection unexpectedly'')) ?ts) \<and>
      calls (snd (health_check py_str ?late ?ts initial_world)) =
        calls initial_world @ take (Suc 2) probe_calls"
    using health_check_always_reports [of py_str ?late ?ts initial_world _ 2
        "''server closed the connection unexpectedly''"] late by blast
  have 4: "status_code (respond (fst (health_check py_str (fault_at 0 ''connection refused'')
      ?ts initial_world))) = 200"
    using health_check_always_reports [of py_str "fault_at 0 ''connection refused''" ?ts initial_world]
    by blast
  have w1: "snd (health_check py_str no_fault ?ts initial_world) = initial_world\<lparr>calls := probe_calls\<rparr>"
    by (simp add: health_defs no_fault_def initial_world_def probe_calls_def)
  from 1 w1 have whole: "health_check py_str no_fault ?ts initial_world =
     (Inr (healthy ?ts), initial_world\<lparr>calls := probe_calls\<rparr>)"
    by (simp add: prod_eq_iff)
  from whole 2 3 4 show ?thesis
    by (simp add: initial_world_def probe_calls_def)
qed

end
